theory Spec2Isabelle
  imports Main
begin

section \<open>Data model (data/types)\<close>

text \<open>
  The type declarations of \<^verbatim>\<open>data/types\<close> are read off their uses in the unifier, the
  matchers, the state machine and the driver. Dot keys, roles, ids and tags are ASCII
  strings. Print text can hold any UTF-16 code unit (kana, brackets, braille patterns), so
  it is a list of code units. Record fields carry a short prefix where two interfaces of
  the source share a field name.
\<close>

type_synonym ustring = "nat list"

datatype Mode = Grade1 | Grade2 | Kana | Nemeth

datatype IndicatorScope = SymbolScope | WordScope | PassageScope

datatype IndicatorType = ModifierType | ModeSwitch

datatype ModifierKind = Capital | Numeric | Typeform

datatype Action = Enter | Exit

record IndicatorDef =
  ind_id :: string
  ind_dots :: "string list"
  ind_dotsKey :: string
  action :: Action
  targetMode :: Mode
  scope :: IndicatorScope
  indicatorType :: IndicatorType
  ind_modifier :: "ModifierKind option"
  ind_tags :: "string list"

section \<open>Mode state machine (engine/state-machine)\<close>

text \<open>
  \<^verbatim>\<open>modeStack\<close> is a JavaScript array used as a stack: \<^verbatim>\<open>push\<close> appends at the end and
  \<^verbatim>\<open>pop\<close> removes the last element. The registered callback is host code; the model
  keeps whether one is registered (\<open>onModeChange\<close>) and the calls made to it, in order
  (\<open>modeChanges\<close>).
\<close>

record StateMachine =
  currentMode :: Mode
  modeStack :: "Mode list"
  activeScope :: "IndicatorScope option"
  symbolCount :: nat
  pendingModifier :: "ModifierKind option"
  onModeChange :: bool
  modeChanges :: "(Mode \<times> Mode \<times> IndicatorDef) list"

definition newStateMachine :: "Mode \<Rightarrow> StateMachine" where
  "newStateMachine initialMode =
     \<lparr>currentMode = initialMode, modeStack = [], activeScope = None, symbolCount = 0,
      pendingModifier = None, onModeChange = False, modeChanges = []\<rparr>"

definition setModeChangeCallback :: "StateMachine \<Rightarrow> StateMachine" where
  "setModeChangeCallback s = s\<lparr>onModeChange := True\<rparr>"

definition autoReturn :: "Mode \<Rightarrow> IndicatorDef" where
  "autoReturn m =
     \<lparr>ind_id = ''auto_return'', ind_dots = [], ind_dotsKey = [], action = Exit,
      targetMode = m, scope = SymbolScope, indicatorType = ModeSwitch, ind_modifier = None,
      ind_tags = []\<rparr>"

definition returnToBase :: "StateMachine \<Rightarrow> StateMachine" where
  "returnToBase s =
     (let oldMode = currentMode s;
          s1 = (if length (modeStack s) > 0
                then s\<lparr>currentMode := last (modeStack s), modeStack := butlast (modeStack s)\<rparr>
                else s\<lparr>currentMode := Grade1\<rparr>);
          s2 = s1\<lparr>activeScope := None, symbolCount := 0\<rparr>
      in if onModeChange s2 \<and> oldMode \<noteq> currentMode s2
         then s2\<lparr>modeChanges :=
                   modeChanges s2 @ [(oldMode, currentMode s2, autoReturn (currentMode s2))]\<rparr>
         else s2)"

definition enterMode :: "IndicatorDef \<Rightarrow> StateMachine \<Rightarrow> bool \<times> StateMachine" where
  "enterMode indicator s =
     (let oldMode = currentMode s; newMode = targetMode indicator
      in if oldMode = newMode \<and> activeScope s = Some (scope indicator) then (False, s)
         else
           (let s1 = s\<lparr>modeStack := modeStack s @ [oldMode], currentMode := newMode,
                        activeScope := Some (scope indicator), symbolCount := 0\<rparr>
            in (True,
                if onModeChange s1
                then s1\<lparr>modeChanges := modeChanges s1 @ [(oldMode, newMode, indicator)]\<rparr>
                else s1)))"

definition exitMode :: "IndicatorDef \<Rightarrow> StateMachine \<Rightarrow> bool \<times> StateMachine" where
  "exitMode indicator s =
     (if currentMode s = Grade1 \<and> length (modeStack s) = 0 then (False, s)
      else
        (let oldMode = currentMode s; s1 = returnToBase s
         in (oldMode \<noteq> currentMode s1, s1)))"

definition processIndicator :: "IndicatorDef \<Rightarrow> StateMachine \<Rightarrow> bool \<times> StateMachine" where
  "processIndicator indicator s =
     (if indicatorType indicator = ModifierType
      then (True,
            if action indicator = Enter \<and> ind_modifier indicator \<noteq> None
            then s\<lparr>pendingModifier := ind_modifier indicator\<rparr>
            else s\<lparr>pendingModifier := None\<rparr>)
      else if action indicator = Enter then enterMode indicator s
      else exitMode indicator s)"

definition consumeModifier :: "StateMachine \<Rightarrow> ModifierKind option \<times> StateMachine" where
  "consumeModifier s = (pendingModifier s, s\<lparr>pendingModifier := None\<rparr>)"

definition onCharacterEmitted :: "StateMachine \<Rightarrow> StateMachine" where
  "onCharacterEmitted s =
     (if activeScope s = Some SymbolScope
      then (let s1 = s\<lparr>symbolCount := symbolCount s + 1\<rparr>
            in if symbolCount s1 \<ge> 1 then returnToBase s1 else s1)
      else s)"

definition onSpace :: "StateMachine \<Rightarrow> StateMachine" where
  "onSpace s = (if activeScope s = Some WordScope then returnToBase s else s)"

definition StateMachine_reset :: "StateMachine \<Rightarrow> StateMachine" where
  "StateMachine_reset s =
     s\<lparr>currentMode := Grade1, modeStack := [], activeScope := None, symbolCount := 0,
       pendingModifier := None\<rparr>"

section \<open>Data unifier (data/unified-table)\<close>

text \<open>
  A raw entry also carries \<^verbatim>\<open>braille\<close>, \<^verbatim>\<open>unicode\<close>, \<^verbatim>\<open>context\<close> and \<^verbatim>\<open>note\<close>; the unifier
  never reads them. \<^verbatim>\<open>print\<close> is nullable. A JavaScript \<^verbatim>\<open>Map\<close> and the \<^verbatim>\<open>mappings\<close>
  object are partial maps.
\<close>

record RawBrailleEntry =
  category :: string
  subcategory :: string
  raw_role :: string
  raw_print :: "ustring option"
  raw_dots :: "string list"
  raw_tags :: "string list"
  raw_id :: string

record DotMapping =
  dm_print :: ustring
  dm_role :: string
  dm_id :: string

record UnifiedEntry =
  ue_dots :: string
  mappings :: "Mode \<rightharpoonup> DotMapping"

record MultiCellEntry =
  mc_id :: string
  mc_dots :: "string list"
  mc_dotsKey :: string
  mc_print :: ustring
  mc_mode :: Mode
  mc_role :: string

record UnifiedData =
  singleCellMap :: "string \<rightharpoonup> UnifiedEntry"
  numericMap :: "string \<rightharpoonup> DotMapping"
  indicators :: "IndicatorDef list"
  multiCellEntries :: "MultiCellEntry list"

text \<open>\<^verbatim>\<open>Array.prototype.join\<close>.\<close>

fun join :: "string \<Rightarrow> string list \<Rightarrow> string" where
  "join sep [] = []"
| "join sep [x] = x"
| "join sep (x # y # ys) = x @ sep @ join sep (y # ys)"

text \<open>\<^verbatim>\<open>d.split("").sort().join("")\<close>: the characters in ascending code order.\<close>

definition sortChars :: "string \<Rightarrow> string" where
  "sortChars d = sort_key (of_char :: char \<Rightarrow> nat) d"

definition dotsToKey :: "string list \<Rightarrow> string" where
  "dotsToKey dots =
     (if length dots = 1 then sortChars (dots ! 0)
      else join ''|'' (map sortChars dots))"

text \<open>
  \<^verbatim>\<open>!entry.print\<close> holds for \<^verbatim>\<open>null\<close> and for the empty string. A mapping object, once
  stored, is truthy.
\<close>

definition processSingleCell ::
  "RawBrailleEntry \<Rightarrow> Mode \<Rightarrow> (string \<rightharpoonup> UnifiedEntry) \<Rightarrow> (string \<rightharpoonup> UnifiedEntry)" where
  "processSingleCell entry mode m =
     (case raw_print entry of
        None \<Rightarrow> m
      | Some p \<Rightarrow>
          if p = [] then m
          else
            (let key = dotsToKey (raw_dots entry);
                 mapping = \<lparr>dm_print = p, dm_role = raw_role entry, dm_id = raw_id entry\<rparr>;
                 unified = (case m key of
                              None \<Rightarrow> \<lparr>ue_dots = key, mappings = Map.empty\<rparr>
                            | Some u \<Rightarrow> u)
             in case mappings unified mode of
                  None \<Rightarrow> m(key \<mapsto> unified\<lparr>mappings := (mappings unified)(mode \<mapsto> mapping)\<rparr>)
                | Some existing \<Rightarrow>
                    (let newIsPaired = (raw_role entry = ''open'' \<or> raw_role entry = ''close'');
                         existingIsPaired =
                           (dm_role existing = ''open'' \<or> dm_role existing = ''close'')
                     in if newIsPaired \<and> \<not> existingIsPaired
                        then m(key \<mapsto> unified\<lparr>mappings := (mappings unified)(mode \<mapsto> mapping)\<rparr>)
                        else m(key \<mapsto> unified))))"

section \<open>Prefix matchers (engine/indicator-matcher, engine/multi-cell-matcher)\<close>

text \<open>The two result types of the source have the same four variants.\<close>

datatype 'e MatchResult =
    Matched 'e
  | MatchedWithLeftover 'e "string list"
  | Pending
  | NoneResult "string list"

text \<open>\<^verbatim>\<open>String.prototype.startsWith\<close>.\<close>

definition startsWith :: "string \<Rightarrow> string \<Rightarrow> bool" where
  "startsWith s p = (take (length p) s = p)"

record IndicatorMatcher =
  im_indicators :: "IndicatorDef list"
  im_pendingCells :: "string list"
  deferredMatch :: "IndicatorDef option"
  im_maxCells :: nat

definition newIndicatorMatcher :: IndicatorMatcher where
  "newIndicatorMatcher =
     \<lparr>im_indicators = [], im_pendingCells = [], deferredMatch = None, im_maxCells = 1\<rparr>"

text \<open>\<^verbatim>\<open>Math.max(1, ...lengths)\<close> is the running maximum that starts at 1.\<close>

definition setIndicators :: "IndicatorDef list \<Rightarrow> IndicatorMatcher \<Rightarrow> IndicatorMatcher" where
  "setIndicators inds m =
     m\<lparr>im_indicators := inds,
       im_maxCells := fold max (map (\<lambda>i. length (ind_dots i)) inds) 1\<rparr>"

definition IndicatorMatcher_tryMatch ::
  "string \<Rightarrow> IndicatorMatcher \<Rightarrow> IndicatorDef MatchResult \<times> IndicatorMatcher" where
  "IndicatorMatcher_tryMatch dotsKey m =
     (let cells = im_pendingCells m @ [dotsKey];
          pendingKey = join ''|'' cells;
          exact = find (\<lambda>i. ind_dotsKey i = pendingKey) (im_indicators m);
          hasLongerPrefix =
            list_ex (\<lambda>i. startsWith (ind_dotsKey i) (pendingKey @ ''|'')) (im_indicators m)
      in case exact of
           Some e \<Rightarrow>
             if \<not> hasLongerPrefix
             then (Matched e, m\<lparr>im_pendingCells := [], deferredMatch := None\<rparr>)
             else (Pending, m\<lparr>im_pendingCells := cells, deferredMatch := Some e\<rparr>)
         | None \<Rightarrow>
             if hasLongerPrefix \<and> length cells < im_maxCells m
             then (Pending, m\<lparr>im_pendingCells := cells\<rparr>)
             else
               (case deferredMatch m of
                  Some matched \<Rightarrow>
                    (MatchedWithLeftover matched [last cells],
                     m\<lparr>im_pendingCells := [], deferredMatch := None\<rparr>)
                | None \<Rightarrow> (NoneResult cells, m\<lparr>im_pendingCells := []\<rparr>)))"

definition IndicatorMatcher_hasPending :: "IndicatorMatcher \<Rightarrow> bool" where
  "IndicatorMatcher_hasPending m = (length (im_pendingCells m) > 0)"

definition IndicatorMatcher_flushPending :: "IndicatorMatcher \<Rightarrow> string list \<times> IndicatorMatcher" where
  "IndicatorMatcher_flushPending m =
     (im_pendingCells m, m\<lparr>im_pendingCells := [], deferredMatch := None\<rparr>)"

definition IndicatorMatcher_reset :: "IndicatorMatcher \<Rightarrow> IndicatorMatcher" where
  "IndicatorMatcher_reset m = m\<lparr>im_pendingCells := [], deferredMatch := None\<rparr>"

record MultiCellMatcher =
  entries :: "MultiCellEntry list"
  mcm_pendingCells :: "string list"
  mcm_maxCells :: nat

definition newMultiCellMatcher :: MultiCellMatcher where
  "newMultiCellMatcher = \<lparr>entries = [], mcm_pendingCells = [], mcm_maxCells = 1\<rparr>"

definition setEntries :: "MultiCellEntry list \<Rightarrow> MultiCellMatcher \<Rightarrow> MultiCellMatcher" where
  "setEntries es m =
     m\<lparr>entries := es, mcm_maxCells := fold max (map (\<lambda>e. length (mc_dots e)) es) 1\<rparr>"

definition MultiCellMatcher_tryMatch ::
  "string \<Rightarrow> Mode \<Rightarrow> MultiCellMatcher \<Rightarrow> MultiCellEntry MatchResult \<times> MultiCellMatcher" where
  "MultiCellMatcher_tryMatch dotsKey mode m =
     (let cells = mcm_pendingCells m @ [dotsKey];
          pendingKey = join ''|'' cells;
          modeEntries = filter (\<lambda>e. mc_mode e = mode \<or> mc_mode e = Grade1) (entries m);
          exact = find (\<lambda>e. mc_dotsKey e = pendingKey) modeEntries;
          hasLongerPrefix =
            list_ex (\<lambda>e. startsWith (mc_dotsKey e) (pendingKey @ ''|'')) modeEntries
      in case exact of
           Some e \<Rightarrow>
             if \<not> hasLongerPrefix then (Matched e, m\<lparr>mcm_pendingCells := []\<rparr>)
             else if length cells < mcm_maxCells m then (Pending, m\<lparr>mcm_pendingCells := cells\<rparr>)
             else (Matched e, m\<lparr>mcm_pendingCells := []\<rparr>)
         | None \<Rightarrow>
             if hasLongerPrefix \<and> length cells < mcm_maxCells m
             then (Pending, m\<lparr>mcm_pendingCells := cells\<rparr>)
             else
               (case (if length cells > 1
                      then find (\<lambda>e. mc_dotsKey e = join ''|'' (butlast cells)) modeEntries
                      else None) of
                  Some prevMatch \<Rightarrow>
                    (MatchedWithLeftover prevMatch [last cells], m\<lparr>mcm_pendingCells := []\<rparr>)
                | None \<Rightarrow> (NoneResult cells, m\<lparr>mcm_pendingCells := []\<rparr>)))"

definition MultiCellMatcher_hasPending :: "MultiCellMatcher \<Rightarrow> bool" where
  "MultiCellMatcher_hasPending m = (length (mcm_pendingCells m) > 0)"

definition MultiCellMatcher_flushPending :: "MultiCellMatcher \<Rightarrow> string list \<times> MultiCellMatcher" where
  "MultiCellMatcher_flushPending m = (mcm_pendingCells m, m\<lparr>mcm_pendingCells := []\<rparr>)"

definition MultiCellMatcher_reset :: "MultiCellMatcher \<Rightarrow> MultiCellMatcher" where
  "MultiCellMatcher_reset m = m\<lparr>mcm_pendingCells := []\<rparr>"

section \<open>Dot mapper (engine/dot-mapper)\<close>

text \<open>
  The chord callback delivers a set of dot numbers; \<^verbatim>\<open>DotNumber\<close> is the type of the seven
  values 0 to 6. A chord is modelled as the list of the dots pressed.
\<close>

datatype DotNumber = Dot0 | Dot1 | Dot2 | Dot3 | Dot4 | Dot5 | Dot6

fun dotValue :: "DotNumber \<Rightarrow> nat" where
  "dotValue Dot0 = 0"
| "dotValue Dot1 = 1"
| "dotValue Dot2 = 2"
| "dotValue Dot3 = 3"
| "dotValue Dot4 = 4"
| "dotValue Dot5 = 5"
| "dotValue Dot6 = 6"

fun dotDigit :: "DotNumber \<Rightarrow> char" where
  "dotDigit Dot0 = CHR ''0''"
| "dotDigit Dot1 = CHR ''1''"
| "dotDigit Dot2 = CHR ''2''"
| "dotDigit Dot3 = CHR ''3''"
| "dotDigit Dot4 = CHR ''4''"
| "dotDigit Dot5 = CHR ''5''"
| "dotDigit Dot6 = CHR ''6''"

text \<open>
  Modelled from the spec: \<^verbatim>\<open>DotMapper.dotsToKey\<close>; of \<^verbatim>\<open>engine/dot-mapper\<close> only the
  tests and the callers are at hand. The dot key of a chord: drop dot 0, sort ascending,
  concatenate the digits.
\<close>

definition DotMapper_dotsToKey :: "DotNumber list \<Rightarrow> string" where
  "DotMapper_dotsToKey dots =
     map dotDigit (sort_key dotValue (remdups (filter (\<lambda>d. d \<noteq> Dot0) dots)))"

text \<open>
  Modelled from the spec: \<^verbatim>\<open>DotMapper.lookup\<close>; of \<^verbatim>\<open>engine/dot-mapper\<close> only the
  tests and the callers are at hand. Find the single-cell entry of the key, try the mapping
  of the current mode, fall back to the mapping of grade 1.
\<close>

definition lookup :: "UnifiedData \<Rightarrow> string \<Rightarrow> Mode \<Rightarrow> DotMapping option" where
  "lookup dat dotsKey mode =
     (case singleCellMap dat dotsKey of
        None \<Rightarrow> None
      | Some entry \<Rightarrow>
          (case mappings entry mode of
             Some mp \<Rightarrow> Some mp
           | None \<Rightarrow> mappings entry Grade1))"

text \<open>
  Modelled from the spec: \<^verbatim>\<open>DotMapper.lookupNumeric\<close>; of \<^verbatim>\<open>engine/dot-mapper\<close> only
  the tests and the callers are at hand. Look the key up in the numeric table.
\<close>

definition lookupNumeric :: "UnifiedData \<Rightarrow> string \<Rightarrow> DotMapping option" where
  "lookupNumeric dat dotsKey = numericMap dat dotsKey"

text \<open>
  Modelled from the spec: \<^verbatim>\<open>DotMapper.dotsKeyToUnicodeBraille\<close>; of \<^verbatim>\<open>engine/dot-mapper\<close>
  only the tests and the callers are at hand. The code point of a cell is U+2800 plus
  \<open>2 ^ (d - 1)\<close> for each dot \<open>d\<close> from 1 to 6 of the cell; the empty key gives U+2800.
\<close>

definition dotsKeyToUnicodeBraille :: "string \<Rightarrow> ustring" where
  "dotsKeyToUnicodeBraille dotsKey =
     [10240 + sum_list (map (\<lambda>d. if dotDigit d \<in> set dotsKey then 2 ^ (dotValue d - 1) else 0)
                          [Dot1, Dot2, Dot3, Dot4, Dot5, Dot6])]"

section \<open>Overlay tracker (output/braille-tracker)\<close>

text \<open>
  The tracker holds the per-line arrays and the mapper it was built with; of the mapper
  it only calls \<^verbatim>\<open>dotsKeyToUnicodeBraille\<close>, which is the field \<open>dotMapper\<close>. Lines and
  columns are editor positions, natural numbers.
\<close>

record BrailleTracker =
  lineData :: "nat \<rightharpoonup> string list"
  dotMapper :: "string \<Rightarrow> ustring"

definition newBrailleTracker :: "(string \<Rightarrow> ustring) \<Rightarrow> BrailleTracker" where
  "newBrailleTracker mapper = \<lparr>lineData = Map.empty, dotMapper = mapper\<rparr>"

text \<open>The loop \<^verbatim>\<open>while (arr.length <= col) arr.push("")\<close>.\<close>

function padLine :: "nat \<Rightarrow> string list \<Rightarrow> string list" where
  "padLine col arr = (if length arr \<le> col then padLine col (arr @ [[]]) else arr)"
  by pat_completeness auto
termination
  by (relation "measure (\<lambda>(col, arr). Suc col - length arr)") auto

declare padLine.simps [simp del]

definition BrailleTracker_record ::
  "nat \<Rightarrow> nat \<Rightarrow> string \<Rightarrow> BrailleTracker \<Rightarrow> BrailleTracker" where
  "BrailleTracker_record line col dotsKey t =
     (let arr = (case lineData t line of None \<Rightarrow> [] | Some a \<Rightarrow> a)
      in t\<lparr>lineData := (lineData t)(line \<mapsto> (padLine col arr)[col := dotsKey])\<rparr>)"

definition recordSpace :: "nat \<Rightarrow> nat \<Rightarrow> BrailleTracker \<Rightarrow> BrailleTracker" where
  "recordSpace line col t = BrailleTracker_record line col [] t"

definition getLine :: "BrailleTracker \<Rightarrow> nat \<Rightarrow> ustring" where
  "getLine t line =
     (case lineData t line of
        None \<Rightarrow> []
      | Some arr \<Rightarrow>
          if length arr = 0 then []
          else concat (map (\<lambda>dotsKey. if dotsKey = [] then [10240] else dotMapper t dotsKey)
                         arr))"

definition hasLine :: "BrailleTracker \<Rightarrow> nat \<Rightarrow> bool" where
  "hasLine t line = (case lineData t line of None \<Rightarrow> False | Some arr \<Rightarrow> length arr > 0)"

definition BrailleTracker_clear :: "BrailleTracker \<Rightarrow> BrailleTracker" where
  "BrailleTracker_clear t = t\<lparr>lineData := Map.empty\<rparr>"

section \<open>Pipeline driver (extension)\<close>

text \<open>
  The module-level variables of the driver are the fields of one record. The host editor,
  the status bar, the overlay, the chord timer and the tracker (written at the editor's
  cursor position) are outside the model:
  \<open>inserted\<close> is the sequence of calls \<^verbatim>\<open>editorOutput.insert(text, dotsKey)\<close> the driver
  makes, the second component being \<open>None\<close> when the call passes no dot key.
  \<^verbatim>\<open>String.prototype.toUpperCase\<close> is a parameter of the functions that call it.
\<close>

record Driver =
  isActive :: bool
  stateMachine :: StateMachine
  indicatorMatcher :: IndicatorMatcher
  multiCellMatcher :: MultiCellMatcher
  unifiedData :: UnifiedData
  isNumericMode :: bool
  kanaBracketOpen :: bool
  inserted :: "(ustring \<times> string option) list"

definition activate :: "UnifiedData \<Rightarrow> Driver" where
  "activate dat =
     \<lparr>isActive = False,
      stateMachine = setModeChangeCallback (newStateMachine Grade1),
      indicatorMatcher = setIndicators (indicators dat) newIndicatorMatcher,
      multiCellMatcher = setEntries (multiCellEntries dat) newMultiCellMatcher,
      unifiedData = dat,
      isNumericMode = False,
      kanaBracketOpen = True,
      inserted = []\<rparr>"

definition toggleMode :: "Driver \<Rightarrow> Driver" where
  "toggleMode d =
     (let d1 = d\<lparr>isActive := \<not> isActive d\<rparr>
      in if isActive d1 then d1
         else d1\<lparr>indicatorMatcher := IndicatorMatcher_reset (indicatorMatcher d1),
                 multiCellMatcher := MultiCellMatcher_reset (multiCellMatcher d1),
                 stateMachine := StateMachine_reset (stateMachine d1),
                 isNumericMode := False,
                 kanaBracketOpen := True\<rparr>)"

definition editorInsert :: "ustring \<Rightarrow> string option \<Rightarrow> Driver \<Rightarrow> Driver" where
  "editorInsert txt dotsKey d = d\<lparr>inserted := inserted d @ [(txt, dotsKey)]\<rparr>"

definition emitMultiCellMatch :: "(ustring \<Rightarrow> ustring) \<Rightarrow> MultiCellEntry \<Rightarrow> Driver \<Rightarrow> Driver" where
  "emitMultiCellMatch toUpperCase entry d =
     (let (modifier, sm1) = consumeModifier (stateMachine d);
          txt = (if modifier = Some Capital then toUpperCase (mc_print entry) else mc_print entry);
          d1 = editorInsert txt (Some (mc_dotsKey entry)) (d\<lparr>stateMachine := sm1\<rparr>);
          d2 = d1\<lparr>stateMachine := onCharacterEmitted (stateMachine d1)\<rparr>
      in d2\<lparr>isNumericMode := False\<rparr>)"

text \<open>
  The part of \<^verbatim>\<open>processCharacter\<close> after the numeric block: the normal lookup, the kana
  bracket toggle, the capital modifier and the fallback to the braille glyph. \<open>mode\<close> and
  \<open>modifier\<close> are the values read at the start of \<^verbatim>\<open>processCharacter\<close>.
\<close>

definition processCharacter_lookup ::
  "(ustring \<Rightarrow> ustring) \<Rightarrow> Mode \<Rightarrow> ModifierKind option \<Rightarrow> string \<Rightarrow> Driver \<Rightarrow> Driver" where
  "processCharacter_lookup toUpperCase mode modifier dotsKey d =
     (case lookup (unifiedData d) dotsKey mode of
        Some mapping \<Rightarrow>
          (let toggle = (mode = Kana \<and> dotsKey = ''36'');
               txt0 = (if toggle then (if kanaBracketOpen d then [12300] else [12301])
                       else dm_print mapping);
               d1 = (if toggle then d\<lparr>kanaBracketOpen := \<not> kanaBracketOpen d\<rparr> else d);
               txt = (if modifier = Some Capital then toUpperCase txt0 else txt0);
               d2 = editorInsert txt (Some dotsKey) d1
           in d2\<lparr>stateMachine := onCharacterEmitted (stateMachine d2)\<rparr>)
      | None \<Rightarrow>
          (let d1 = editorInsert (dotsKeyToUnicodeBraille dotsKey) (Some dotsKey) d
           in d1\<lparr>stateMachine := onCharacterEmitted (stateMachine d1)\<rparr>))"

definition processCharacter :: "(ustring \<Rightarrow> ustring) \<Rightarrow> string \<Rightarrow> Driver \<Rightarrow> Driver" where
  "processCharacter toUpperCase dotsKey d =
     (let mode = currentMode (stateMachine d);
          (modifier, sm1) = consumeModifier (stateMachine d);
          d1 = d\<lparr>stateMachine := sm1\<rparr>
      in if modifier = Some Numeric \<or> isNumericMode d1
         then
           (case lookupNumeric (unifiedData d1) dotsKey of
              Some numMapping \<Rightarrow>
                (let d2 = editorInsert (dm_print numMapping) (Some dotsKey)
                            (d1\<lparr>isNumericMode := True\<rparr>)
                 in d2\<lparr>stateMachine := onCharacterEmitted (stateMachine d2)\<rparr>)
            | None \<Rightarrow>
                processCharacter_lookup toUpperCase mode modifier dotsKey
                  (d1\<lparr>isNumericMode := False\<rparr>))
         else processCharacter_lookup toUpperCase mode modifier dotsKey d1)"


definition processCellFallback :: "(ustring \<Rightarrow> ustring) \<Rightarrow> string \<Rightarrow> Driver \<Rightarrow> Driver" where
  "processCellFallback toUpperCase dotsKey d =
     (let (matchResult, im1) = IndicatorMatcher_tryMatch dotsKey (indicatorMatcher d);
          d1 = d\<lparr>indicatorMatcher := im1\<rparr>
      in case matchResult of
           Matched indicator \<Rightarrow>
             (let d2 = d1\<lparr>stateMachine := snd (processIndicator indicator (stateMachine d1))\<rparr>
              in if ind_modifier indicator = Some Numeric then d2\<lparr>isNumericMode := True\<rparr> else d2)
         | MatchedWithLeftover indicator leftoverCells \<Rightarrow>
             (let d2 = d1\<lparr>stateMachine := snd (processIndicator indicator (stateMachine d1))\<rparr>;
                  d3 = (if ind_modifier indicator = Some Numeric then d2\<lparr>isNumericMode := True\<rparr>
                        else d2)
              in fold (processCharacter toUpperCase) leftoverCells d3)
         | Pending \<Rightarrow> d1
         | NoneResult bufferedCells \<Rightarrow> fold (processCharacter toUpperCase) bufferedCells d1)"

definition flushAllPending :: "(ustring \<Rightarrow> ustring) \<Rightarrow> Driver \<Rightarrow> Driver" where
  "flushAllPending toUpperCase d =
     (let (mcPending, mcm1) = MultiCellMatcher_flushPending (multiCellMatcher d);
          d1 = fold (processCellFallback toUpperCase) mcPending (d\<lparr>multiCellMatcher := mcm1\<rparr>);
          (indPending, im1) = IndicatorMatcher_flushPending (indicatorMatcher d1)
      in fold (processCharacter toUpperCase) indPending (d1\<lparr>indicatorMatcher := im1\<rparr>))"

text \<open>\<^verbatim>\<open>editorOutput.insertSpace\<close> calls \<^verbatim>\<open>insert(" ")\<close> with no dot key.\<close>

definition insertSpace :: "Driver \<Rightarrow> Driver" where
  "insertSpace d = editorInsert [32] None d"

definition handleChord :: "(ustring \<Rightarrow> ustring) \<Rightarrow> DotNumber list \<Rightarrow> Driver \<Rightarrow> Driver" where
  "handleChord toUpperCase dots d =
     (if Dot0 \<in> set dots
      then
        (let d1 = flushAllPending toUpperCase d;
             d2 = insertSpace d1;
             d3 = d2\<lparr>stateMachine := onSpace (stateMachine d2)\<rparr>
         in d3\<lparr>isNumericMode := False\<rparr>)
      else
        (let dotsKey = DotMapper_dotsToKey dots;
             mode = currentMode (stateMachine d);
             (mcResult, mcm1) = MultiCellMatcher_tryMatch dotsKey mode (multiCellMatcher d);
             d1 = d\<lparr>multiCellMatcher := mcm1\<rparr>
         in case mcResult of
              Matched entry \<Rightarrow> emitMultiCellMatch toUpperCase entry d1
            | MatchedWithLeftover entry leftoverCells \<Rightarrow>
                fold (processCellFallback toUpperCase) leftoverCells
                  (emitMultiCellMatch toUpperCase entry d1)
            | Pending \<Rightarrow> d1
            | NoneResult bufferedCells \<Rightarrow>
                fold (processCellFallback toUpperCase) bufferedCells d1))"

section \<open>Fixtures of the test suites\<close>

text \<open>
  The helpers with which the repository's tests build their inputs
  (\<^verbatim>\<open>test/engine/state-machine.test.ts\<close>, \<^verbatim>\<open>test/data/unified-table.test.ts\<close>, the
  multi-cell matcher's test), and some of the states the tests reach.
\<close>

fun actionName :: "Action \<Rightarrow> string" where
  "actionName Enter = ''enter''"
| "actionName Exit = ''exit''"

fun modeName :: "Mode \<Rightarrow> string" where
  "modeName Grade1 = ''grade1''"
| "modeName Grade2 = ''grade2''"
| "modeName Kana = ''kana''"
| "modeName Nemeth = ''nemeth''"

fun scopeName :: "IndicatorScope \<Rightarrow> string" where
  "scopeName SymbolScope = ''symbol''"
| "scopeName WordScope = ''word''"
| "scopeName PassageScope = ''passage''"

definition makeIndicator ::
  "Mode \<Rightarrow> Action \<Rightarrow> IndicatorScope \<Rightarrow> IndicatorType \<Rightarrow> ModifierKind option \<Rightarrow> IndicatorDef" where
  "makeIndicator tm act sc ty md =
     \<lparr>ind_id = actionName act @ ''_'' @ modeName tm @ ''_'' @ scopeName sc,
      ind_dots = [], ind_dotsKey = [], action = act, targetMode = tm, scope = sc,
      indicatorType = ty, ind_modifier = md, ind_tags = []\<rparr>"

definition makeRawEntry :: "string \<Rightarrow> string list \<Rightarrow> ustring option \<Rightarrow> string \<Rightarrow> RawBrailleEntry" where
  "makeRawEntry i ds p r =
     \<lparr>category = ''letter'', subcategory = ''lowercase'', raw_role = r, raw_print = p,
      raw_dots = ds, raw_tags = [], raw_id = i\<rparr>"

definition makeEntry :: "string \<Rightarrow> string list \<Rightarrow> ustring \<Rightarrow> Mode \<Rightarrow> MultiCellEntry" where
  "makeEntry i ds p m =
     \<lparr>mc_id = i, mc_dots = ds, mc_dotsKey = join ''|'' ds, mc_print = p, mc_mode = m,
      mc_role = ''punctuation''\<rparr>"

text \<open>The machine the driver starts with: grade 1, with the driver's callback registered.\<close>

definition driverMachine :: StateMachine where
  "driverMachine = setModeChangeCallback (newStateMachine Grade1)"

text \<open>After the kana passage indicator.\<close>

definition kanaPassageEntered :: StateMachine where
  "kanaPassageEntered =
     snd (processIndicator (makeIndicator Kana Enter PassageScope ModeSwitch None) driverMachine)"

text \<open>After a grade 1 word indicator, typed in grade 1.\<close>

definition grade1WordEntered :: StateMachine where
  "grade1WordEntered =
     snd (processIndicator (makeIndicator Grade1 Enter WordScope ModeSwitch None) driverMachine)"

text \<open>
  Two indicators that share the first cell, as the capital letter and capital word
  indicators do, and the indicator matcher after the cell \<^verbatim>\<open>6\<close>: the short one is held
  back.
\<close>

definition capitalIndicator :: IndicatorDef where
  "capitalIndicator =
     \<lparr>ind_id = ''capital_letter'', ind_dots = [''6''], ind_dotsKey = ''6'', action = Enter,
      targetMode = Grade1, scope = SymbolScope, indicatorType = ModifierType,
      ind_modifier = Some Capital, ind_tags = []\<rparr>"

definition capitalWordIndicator :: IndicatorDef where
  "capitalWordIndicator =
     \<lparr>ind_id = ''capital_word'', ind_dots = [''6'', ''6''], ind_dotsKey = ''6|6'', action = Enter,
      targetMode = Grade1, scope = WordScope, indicatorType = ModifierType,
      ind_modifier = Some Capital, ind_tags = [''word'']\<rparr>"

definition capitalDeferred :: IndicatorMatcher where
  "capitalDeferred =
     snd (IndicatorMatcher_tryMatch ''6''
        (setIndicators [capitalIndicator, capitalWordIndicator] newIndicatorMatcher))"

text \<open>
  The opening parenthesis of the matcher's tests, a longer entry that extends it, and the
  multi-cell matcher after the cells \<^verbatim>\<open>5\<close>, \<^verbatim>\<open>126\<close> (both entries loaded) and after the
  cell \<^verbatim>\<open>5\<close> (the parenthesis alone).
\<close>

definition leftParen :: MultiCellEntry where
  "leftParen = makeEntry ''left_paren'' [''5'', ''126''] [40] Grade1"

definition leftParenLong :: MultiCellEntry where
  "leftParenLong = makeEntry ''left_paren_long'' [''5'', ''126'', ''3''] [40, 40] Grade1"

definition parenPending :: MultiCellMatcher where
  "parenPending =
     snd (MultiCellMatcher_tryMatch ''126'' Grade1
       (snd (MultiCellMatcher_tryMatch ''5'' Grade1
          (setEntries [leftParen, leftParenLong] newMultiCellMatcher))))"

definition fivePending :: MultiCellMatcher where
  "fivePending =
     snd (MultiCellMatcher_tryMatch ''5'' Grade1 (setEntries [leftParen] newMultiCellMatcher))"

text \<open>The tracker the driver builds: empty, with the mapper's glyph encoding.\<close>

definition emptyTracker :: BrailleTracker where
  "emptyTracker = newBrailleTracker dotsKeyToUnicodeBraille"

text \<open>
  \<^verbatim>\<open>toUpperCase\<close> on print text of ASCII letters; every other code unit is left as it
  is, which is what it does to digits, punctuation, kana, brackets and braille patterns.
\<close>

definition asciiUpper :: "ustring \<Rightarrow> ustring" where
  "asciiUpper txt = map (\<lambda>c. if 97 \<le> c \<and> c \<le> 122 then c - 32 else c) txt"

text \<open>The numeric indicator and the kana passage indicator, with their cells.\<close>

definition numericIndicator :: IndicatorDef where
  "numericIndicator =
     \<lparr>ind_id = ''numeric_indicator'', ind_dots = [''3456''], ind_dotsKey = ''3456'',
      action = Enter, targetMode = Grade1, scope = SymbolScope, indicatorType = ModifierType,
      ind_modifier = Some Numeric, ind_tags = []\<rparr>"


text \<open>
  Unified tables: letters a and b with the digits 1 and 2 on the same cells and the numeric
  indicator; the kana indicator with kana entries for the cells \<^verbatim>\<open>36\<close> and \<^verbatim>\<open>1\<close>; the kana
  indicator with no single-cell entry at all.
\<close>

definition uebData :: UnifiedData where
  "uebData =
     \<lparr>singleCellMap =
        [''1'' \<mapsto> \<lparr>ue_dots = ''1'',
                    mappings = [Grade1 \<mapsto> \<lparr>dm_print = [97], dm_role = ''letter'', dm_id = ''ueb_a''\<rparr>]\<rparr>,
         ''12'' \<mapsto> \<lparr>ue_dots = ''12'',
                    mappings = [Grade1 \<mapsto> \<lparr>dm_print = [98], dm_role = ''letter'', dm_id = ''ueb_b''\<rparr>]\<rparr>],
      numericMap =
        [''1'' \<mapsto> \<lparr>dm_print = [49], dm_role = ''numbers'', dm_id = ''ueb_1''\<rparr>,
         ''12'' \<mapsto> \<lparr>dm_print = [50], dm_role = ''numbers'', dm_id = ''ueb_2''\<rparr>],
      indicators = [numericIndicator],
      multiCellEntries = []\<rparr>"



text \<open>
  Driver states reached by chords: after the numeric indicator; after the two cells of the
  kana indicator, with and without an entry for the cell \<^verbatim>\<open>36\<close>.
\<close>

definition numericDriver :: Driver where
  "numericDriver =
     handleChord asciiUpper [Dot3, Dot4, Dot5, Dot6] (toggleMode (activate uebData))"



text \<open>A two-cell entry of letters, and a driver with a pending capital in numeric mode.\<close>

definition letterPair :: MultiCellEntry where
  "letterPair = makeEntry ''letter_pair'' [''5'', ''1''] [97, 98] Grade1"

definition capitalNumericDriver :: Driver where
  "capitalNumericDriver =
     (activate uebData)
       \<lparr>isActive := True,
        stateMachine := driverMachine\<lparr>pendingModifier := Some Capital\<rparr>,
        isNumericMode := True\<rparr>"

text \<open>
  The two entries of the unifier's test for the cell \<^verbatim>\<open>256\<close>: the contraction \<^verbatim>\<open>dis\<close>
  and the full stop.
\<close>

definition contractionDis :: RawBrailleEntry where
  "contractionDis = makeRawEntry ''contraction_dis'' [''256''] (Some [100, 105, 115]) ''groupsigns''"

definition period :: RawBrailleEntry where
  "period = makeRawEntry ''period'' [''256''] (Some [46]) ''punctuation''"

section \<open>Mode state machine: entering and leaving a mode\<close>

lemma exitMode_base:
  "currentMode s = Grade1 \<Longrightarrow> modeStack s = [] \<Longrightarrow> exitMode e s = (False, s)"
  by (simp add: exitMode_def)

lemma returnToBase_eq:
  "returnToBase s =
     (let new = (if modeStack s = [] then Grade1 else last (modeStack s))
      in s\<lparr>currentMode := new, modeStack := butlast (modeStack s),
           activeScope := None, symbolCount := 0,
           modeChanges := (if onModeChange s \<and> currentMode s \<noteq> new
              then modeChanges s @ [(currentMode s, new, autoReturn new)]
              else modeChanges s)\<rparr>)"
  by (cases "modeStack s = []") (simp_all add: returnToBase_def Let_def)

lemma exitMode_away:
  assumes "\<not> (currentMode s = Grade1 \<and> modeStack s = [])"
  shows "exitMode e s = (currentMode s \<noteq> currentMode (returnToBase s), returnToBase s)"
  using assms
  by (cases "currentMode s = Grade1"; cases "modeStack s = []")
    (simp_all add: exitMode_def Let_def)

lemma enterMode_effective:
  "\<not> (currentMode s = targetMode i \<and> activeScope s = Some (scope i)) \<Longrightarrow>
   enterMode i s =
     (True, s\<lparr>modeStack := modeStack s @ [currentMode s], currentMode := targetMode i,
              activeScope := Some (scope i), symbolCount := 0,
              modeChanges := (if onModeChange s
                 then modeChanges s @ [(currentMode s, targetMode i, i)]
                 else modeChanges s)\<rparr>)"
  by (cases "currentMode s = targetMode i"; cases "activeScope s = Some (scope i)")
    (simp_all add: enterMode_def Let_def)

lemma enterMode_same:
  "currentMode s = targetMode i \<Longrightarrow> activeScope s = Some (scope i) \<Longrightarrow>
   enterMode i s = (False, s)"
  by (simp add: enterMode_def Let_def)

lemma kanaPassageEntered_eq:
  "kanaPassageEntered =
     \<lparr>currentMode = Kana, modeStack = [Grade1], activeScope = Some PassageScope,
      symbolCount = 0, pendingModifier = None, onModeChange = True,
      modeChanges = [(Grade1, Kana, makeIndicator Kana Enter PassageScope ModeSwitch None)]\<rparr>"
  by (simp add: kanaPassageEntered_def driverMachine_def setModeChangeCallback_def
      newStateMachine_def processIndicator_def enterMode_def makeIndicator_def Let_def)

lemma grade1WordEntered_eq:
  "grade1WordEntered =
     \<lparr>currentMode = Grade1, modeStack = [Grade1], activeScope = Some WordScope,
      symbolCount = 0, pendingModifier = None, onModeChange = True,
      modeChanges = [(Grade1, Grade1, makeIndicator Grade1 Enter WordScope ModeSwitch None)]\<rparr>"
  by (simp add: grade1WordEntered_def driverMachine_def setModeChangeCallback_def
      newStateMachine_def processIndicator_def enterMode_def makeIndicator_def Let_def)

text \<open>
  C2, as stated, fails. In kana with passage scope (the state the kana passage indicator
  leaves), entering nemeth for a word and leaving it again restores the mode and the stack
  but not the scope: leaving a mode always clears the scope, and the stack keeps modes only.
  In the same state the kana passage indicator itself is a no-op, and the exit that follows
  leaves kana for grade 1 with an empty stack.
\<close>

theorem enter_exit_loses_scope:
  "activeScope kanaPassageEntered = Some PassageScope \<and>
   activeScope
     (snd (processIndicator (makeIndicator Nemeth Exit SymbolScope ModeSwitch None)
        (snd (processIndicator (makeIndicator Nemeth Enter WordScope ModeSwitch None)
           kanaPassageEntered)))) = None \<and>
   currentMode kanaPassageEntered = Kana \<and>
   modeStack kanaPassageEntered = [Grade1] \<and>
   currentMode
     (snd (processIndicator (makeIndicator Kana Exit SymbolScope ModeSwitch None)
        (snd (processIndicator (makeIndicator Kana Enter PassageScope ModeSwitch None)
           kanaPassageEntered)))) = Grade1 \<and>
   modeStack
     (snd (processIndicator (makeIndicator Kana Exit SymbolScope ModeSwitch None)
        (snd (processIndicator (makeIndicator Kana Enter PassageScope ModeSwitch None)
           kanaPassageEntered)))) = []"
  by (simp add: kanaPassageEntered_eq processIndicator_def enterMode_def exitMode_def
      returnToBase_def makeIndicator_def Let_def)

text \<open>
  C2, amended: for every mode-switch enter indicator, every mode-switch exit indicator and
  every starting state in which the enter takes effect (the machine is not already in the
  indicator's target mode with the indicator's scope), the enter reports a change, and
  processing the enter and then the exit gives back exactly the mode and the whole mode
  stack, hence its depth; the active scope is cleared, not restored, so it is the scope
  held before exactly when none was active. In a state where the enter is a no-op the two
  calls act as the exit alone.
\<close>

theorem enter_exit_restores:
  assumes "indicatorType i = ModeSwitch" and "action i = Enter"
      and "indicatorType e = ModeSwitch" and "action e = Exit"
  shows "(\<not> (currentMode s = targetMode i \<and> activeScope s = Some (scope i)) \<longrightarrow>
            fst (processIndicator i s) = True \<and>
            currentMode (snd (processIndicator e (snd (processIndicator i s)))) = currentMode s \<and>
            modeStack (snd (processIndicator e (snd (processIndicator i s)))) = modeStack s \<and>
            length (modeStack (snd (processIndicator e (snd (processIndicator i s)))))
              = length (modeStack s) \<and>
            activeScope (snd (processIndicator e (snd (processIndicator i s)))) = None \<and>
            (activeScope (snd (processIndicator e (snd (processIndicator i s)))) = activeScope s)
              = (activeScope s = None)) \<and>
         (currentMode s = targetMode i \<and> activeScope s = Some (scope i) \<longrightarrow>
            processIndicator i s = (False, s) \<and>
            processIndicator e (snd (processIndicator i s)) = processIndicator e s)"
proof -
  have p1: "processIndicator i s = enterMode i s"
    using assms by (simp add: processIndicator_def)
  have eff: "\<not> (currentMode s = targetMode i \<and> activeScope s = Some (scope i)) \<longrightarrow>
            fst (processIndicator i s) = True \<and>
            currentMode (snd (processIndicator e (snd (processIndicator i s)))) = currentMode s \<and>
            modeStack (snd (processIndicator e (snd (processIndicator i s)))) = modeStack s \<and>
            length (modeStack (snd (processIndicator e (snd (processIndicator i s)))))
              = length (modeStack s) \<and>
            activeScope (snd (processIndicator e (snd (processIndicator i s)))) = None \<and>
            (activeScope (snd (processIndicator e (snd (processIndicator i s)))) = activeScope s)
              = (activeScope s = None)"
  proof
    assume ne: "\<not> (currentMode s = targetMode i \<and> activeScope s = Some (scope i))"
    define s1 where "s1 = snd (enterMode i s)"
    have t: "fst (enterMode i s) = True"
      by (simp add: enterMode_effective [OF ne])
    have st: "modeStack s1 = modeStack s @ [currentMode s]"
      by (simp add: s1_def enterMode_effective [OF ne])
    have p2: "processIndicator e s1 = exitMode e s1"
      using assms by (simp add: processIndicator_def)
    have p3: "exitMode e s1 = (currentMode s1 \<noteq> currentMode (returnToBase s1), returnToBase s1)"
      using st by (simp add: exitMode_away)
    have r: "currentMode (returnToBase s1) = currentMode s"
         "activeScope (returnToBase s1) = None"
         "modeStack (returnToBase s1) = modeStack s"
      using st by (simp_all add: returnToBase_eq Let_def)
    have sc: "(None = activeScope s) = (activeScope s = None)"
      by auto
    show "fst (processIndicator i s) = True \<and>
            currentMode (snd (processIndicator e (snd (processIndicator i s)))) = currentMode s \<and>
            modeStack (snd (processIndicator e (snd (processIndicator i s)))) = modeStack s \<and>
            length (modeStack (snd (processIndicator e (snd (processIndicator i s)))))
              = length (modeStack s) \<and>
            activeScope (snd (processIndicator e (snd (processIndicator i s)))) = None \<and>
            (activeScope (snd (processIndicator e (snd (processIndicator i s)))) = activeScope s)
              = (activeScope s = None)"
      using t r sc by (simp add: p1 p2 p3 s1_def [symmetric])
  qed
  have same: "currentMode s = targetMode i \<and> activeScope s = Some (scope i) \<longrightarrow>
            processIndicator i s = (False, s) \<and>
            processIndicator e (snd (processIndicator i s)) = processIndicator e s"
    by (simp add: p1 enterMode_same)
  from eff same show ?thesis by (rule conjI)
qed

theorem enter_exit_restores_witness:
  "currentMode kanaPassageEntered = Kana \<and>
   activeScope kanaPassageEntered = Some PassageScope \<and>
   modeStack kanaPassageEntered = [Grade1] \<and>
   currentMode (snd (processIndicator (makeIndicator Nemeth Exit SymbolScope ModeSwitch None)
      (snd (processIndicator (makeIndicator Nemeth Enter WordScope ModeSwitch None)
         kanaPassageEntered)))) = Kana \<and>
   modeStack (snd (processIndicator (makeIndicator Nemeth Exit SymbolScope ModeSwitch None)
      (snd (processIndicator (makeIndicator Nemeth Enter WordScope ModeSwitch None)
         kanaPassageEntered)))) = [Grade1] \<and>
   activeScope (snd (processIndicator (makeIndicator Nemeth Exit SymbolScope ModeSwitch None)
      (snd (processIndicator (makeIndicator Nemeth Enter WordScope ModeSwitch None)
         kanaPassageEntered)))) = None \<and>
   activeScope driverMachine = None \<and>
   currentMode (snd (processIndicator (makeIndicator Kana Exit SymbolScope ModeSwitch None)
      (snd (processIndicator (makeIndicator Kana Enter PassageScope ModeSwitch None)
         driverMachine)))) = Grade1 \<and>
   activeScope (snd (processIndicator (makeIndicator Kana Exit SymbolScope ModeSwitch None)
      (snd (processIndicator (makeIndicator Kana Enter PassageScope ModeSwitch None)
         driverMachine)))) = None \<and>
   modeStack (snd (processIndicator (makeIndicator Kana Exit SymbolScope ModeSwitch None)
      (snd (processIndicator (makeIndicator Kana Enter PassageScope ModeSwitch None)
         driverMachine)))) = [] \<and>
   processIndicator (makeIndicator Kana Enter PassageScope ModeSwitch None) kanaPassageEntered
     = (False, kanaPassageEntered)"
proof -
  have n1: "indicatorType (makeIndicator Nemeth Enter WordScope ModeSwitch None) = ModeSwitch"
    and n2: "action (makeIndicator Nemeth Enter WordScope ModeSwitch None) = Enter"
    and n3: "indicatorType (makeIndicator Nemeth Exit SymbolScope ModeSwitch None) = ModeSwitch"
    and n4: "action (makeIndicator Nemeth Exit SymbolScope ModeSwitch None) = Exit"
    and h1: "indicatorType (makeIndicator Kana Enter PassageScope ModeSwitch None) = ModeSwitch"
    and h2: "action (makeIndicator Kana Enter PassageScope ModeSwitch None) = Enter"
    and h3: "indicatorType (makeIndicator Kana Exit SymbolScope ModeSwitch None) = ModeSwitch"
    and h4: "action (makeIndicator Kana Exit SymbolScope ModeSwitch None) = Exit"
    by (simp_all add: makeIndicator_def)
  have k: "currentMode kanaPassageEntered = Kana"
    "activeScope kanaPassageEntered = Some PassageScope"
    "modeStack kanaPassageEntered = [Grade1]"
    by (simp_all add: kanaPassageEntered_eq)
  have m: "activeScope driverMachine = None" "currentMode driverMachine = Grade1"
    "modeStack driverMachine = []"
    by (simp_all add: driverMachine_def setModeChangeCallback_def newStateMachine_def)
  have t: "targetMode (makeIndicator Nemeth Enter WordScope ModeSwitch None) = Nemeth"
    "targetMode (makeIndicator Kana Enter PassageScope ModeSwitch None) = Kana"
    "scope (makeIndicator Kana Enter PassageScope ModeSwitch None) = PassageScope"
    by (simp_all add: makeIndicator_def)
  show ?thesis
    using enter_exit_restores [OF n1 n2 n3 n4, of kanaPassageEntered]
      enter_exit_restores [OF h1 h2 h3 h4, of driverMachine]
      enter_exit_restores [OF h1 h2 h3 h4, of kanaPassageEntered]
    by (simp add: k m t)
qed

text \<open>
  C3, as stated, fails. After a grade 1 word indicator typed in grade 1 the stack holds
  grade 1 below grade 1; the exit indicator pops it, but the mode does not change, so the
  call reports no change and the callback is not fired.
\<close>

theorem exit_without_mode_change:
  "\<not> (currentMode grade1WordEntered = Grade1 \<and> modeStack grade1WordEntered = []) \<and>
   onModeChange grade1WordEntered \<and>
   fst (processIndicator (makeIndicator Grade1 Exit SymbolScope ModeSwitch None)
          grade1WordEntered) = False \<and>
   modeChanges (snd (processIndicator (makeIndicator Grade1 Exit SymbolScope ModeSwitch None)
          grade1WordEntered)) = modeChanges grade1WordEntered"
  by (simp add: grade1WordEntered_eq processIndicator_def exitMode_def
      returnToBase_def makeIndicator_def Let_def)

text \<open>
  C3, amended: a mode-switch exit indicator processed in grade 1 with an empty stack is a
  no-op that returns false. In every other state it pops the stack (or restores grade 1 when
  the stack is empty), clears the active scope and resets \<open>symbolCount\<close> to 0; it returns
  true exactly when the restored mode differs from the mode it left, and the callback, if
  one is registered, is fired exactly then.
\<close>

theorem exit_indicator_effect:
  assumes "indicatorType indicator = ModeSwitch" and "action indicator = Exit"
  shows "(currentMode s = Grade1 \<and> modeStack s = [] \<longrightarrow>
            processIndicator indicator s = (False, s)) \<and>
         (\<not> (currentMode s = Grade1 \<and> modeStack s = []) \<longrightarrow>
            (let new = (if modeStack s = [] then Grade1 else last (modeStack s));
                 fire = (onModeChange s \<and> currentMode s \<noteq> new)
             in processIndicator indicator s =
                  (currentMode s \<noteq> new,
                   s\<lparr>currentMode := new, modeStack := butlast (modeStack s),
                     activeScope := None, symbolCount := 0,
                     modeChanges := (if fire
                        then modeChanges s @ [(currentMode s, new, autoReturn new)]
                        else modeChanges s)\<rparr>)))"
proof -
  have pi: "processIndicator indicator s = exitMode indicator s"
    using assms by (simp add: processIndicator_def)
  have a: "currentMode s = Grade1 \<and> modeStack s = [] \<longrightarrow>
            processIndicator indicator s = (False, s)"
    by (simp add: pi exitMode_base)
  have b: "\<not> (currentMode s = Grade1 \<and> modeStack s = []) \<longrightarrow>
            (let new = (if modeStack s = [] then Grade1 else last (modeStack s));
                 fire = (onModeChange s \<and> currentMode s \<noteq> new)
             in processIndicator indicator s =
                  (currentMode s \<noteq> new,
                   s\<lparr>currentMode := new, modeStack := butlast (modeStack s),
                     activeScope := None, symbolCount := 0,
                     modeChanges := (if fire
                        then modeChanges s @ [(currentMode s, new, autoReturn new)]
                        else modeChanges s)\<rparr>))"
  proof
    assume nb: "\<not> (currentMode s = Grade1 \<and> modeStack s = [])"
    show "(let new = (if modeStack s = [] then Grade1 else last (modeStack s));
                 fire = (onModeChange s \<and> currentMode s \<noteq> new)
             in processIndicator indicator s =
                  (currentMode s \<noteq> new,
                   s\<lparr>currentMode := new, modeStack := butlast (modeStack s),
                     activeScope := None, symbolCount := 0,
                     modeChanges := (if fire
                        then modeChanges s @ [(currentMode s, new, autoReturn new)]
                        else modeChanges s)\<rparr>))"
      by (simp add: pi exitMode_away [OF nb] returnToBase_eq Let_def)
  qed
  from a b show ?thesis by (rule conjI)
qed

theorem exit_indicator_effect_witness:
  "processIndicator (makeIndicator Grade1 Exit SymbolScope ModeSwitch None) driverMachine
     = (False, driverMachine) \<and>
   fst (processIndicator (makeIndicator Kana Exit SymbolScope ModeSwitch None)
          kanaPassageEntered) = True \<and>
   currentMode (snd (processIndicator (makeIndicator Kana Exit SymbolScope ModeSwitch None)
          kanaPassageEntered)) = Grade1 \<and>
   modeChanges (snd (processIndicator (makeIndicator Kana Exit SymbolScope ModeSwitch None)
          kanaPassageEntered))
     = modeChanges kanaPassageEntered @ [(Kana, Grade1, autoReturn Grade1)]"
proof -
  have h1: "indicatorType (makeIndicator Grade1 Exit SymbolScope ModeSwitch None) = ModeSwitch"
    and h2: "action (makeIndicator Grade1 Exit SymbolScope ModeSwitch None) = Exit"
    and h3: "indicatorType (makeIndicator Kana Exit SymbolScope ModeSwitch None) = ModeSwitch"
    and h4: "action (makeIndicator Kana Exit SymbolScope ModeSwitch None) = Exit"
    by (simp_all add: makeIndicator_def)
  have b: "currentMode driverMachine = Grade1 \<and> modeStack driverMachine = []"
    by (simp add: driverMachine_def setModeChangeCallback_def newStateMachine_def)
  have k: "\<not> (currentMode kanaPassageEntered = Grade1 \<and> modeStack kanaPassageEntered = [])"
    "modeStack kanaPassageEntered = [Grade1]" "currentMode kanaPassageEntered = Kana"
    "onModeChange kanaPassageEntered"
    by (simp_all add: kanaPassageEntered_eq)
  show ?thesis
    using exit_indicator_effect [OF h1 h2, of driverMachine]
      exit_indicator_effect [OF h3 h4, of kanaPassageEntered] b k
    by (simp add: Let_def)
qed

section \<open>Prefix matchers: the outcome of one call\<close>

lemma capitalDeferred_eq:
  "capitalDeferred =
     \<lparr>im_indicators = [capitalIndicator, capitalWordIndicator], im_pendingCells = [''6''],
      deferredMatch = Some capitalIndicator, im_maxCells = 2\<rparr>"
  by (simp add: capitalDeferred_def IndicatorMatcher_tryMatch_def setIndicators_def
      newIndicatorMatcher_def capitalIndicator_def capitalWordIndicator_def startsWith_def Let_def)

lemma parenPending_eq:
  "parenPending =
     \<lparr>entries = [leftParen, leftParenLong], mcm_pendingCells = [''5'', ''126''], mcm_maxCells = 3\<rparr>"
  by (simp add: parenPending_def MultiCellMatcher_tryMatch_def setEntries_def
      newMultiCellMatcher_def leftParen_def leftParenLong_def makeEntry_def startsWith_def Let_def)

lemma fivePending_eq:
  "fivePending = \<lparr>entries = [leftParen], mcm_pendingCells = [''5''], mcm_maxCells = 2\<rparr>"
  by (simp add: fivePending_def MultiCellMatcher_tryMatch_def setEntries_def
      newMultiCellMatcher_def leftParen_def makeEntry_def startsWith_def Let_def)

text \<open>
  C5: a call of the indicator matcher in which the buffered key (the cells held and the new
  one, joined) is the key of no indicator and starts no longer indicator, while a deferred
  match is held, returns \<open>matched_with_leftover\<close> with the deferred indicator and the new
  cell, the last of the buffer, as the only leftover; the buffer and the deferred slot are
  cleared.
\<close>

theorem deferred_commit:
  assumes "\<forall>i \<in> set (im_indicators m).
             ind_dotsKey i \<noteq> join ''|'' (im_pendingCells m @ [k])"
      and "\<forall>i \<in> set (im_indicators m).
             \<not> startsWith (ind_dotsKey i) (join ''|'' (im_pendingCells m @ [k]) @ ''|'')"
      and "deferredMatch m = Some held"
  shows "IndicatorMatcher_tryMatch k m =
           (MatchedWithLeftover held [k], m\<lparr>im_pendingCells := [], deferredMatch := None\<rparr>)"
proof -
  have e: "find (\<lambda>i. ind_dotsKey i = join ''|'' (im_pendingCells m @ [k])) (im_indicators m) = None"
    using assms(1) by (simp add: find_None_iff)
  have l: "\<not> list_ex (\<lambda>i. startsWith (ind_dotsKey i) (join ''|'' (im_pendingCells m @ [k]) @ ''|''))
              (im_indicators m)"
    using assms(2) by (simp add: list_ex_iff)
  show ?thesis
    using l by (simp add: IndicatorMatcher_tryMatch_def Let_def e assms(3))
qed

theorem deferred_commit_witness:
  "deferredMatch capitalDeferred = Some capitalIndicator \<and>
   IndicatorMatcher_tryMatch ''1'' capitalDeferred =
     (MatchedWithLeftover capitalIndicator [''1''],
      capitalDeferred\<lparr>im_pendingCells := [], deferredMatch := None\<rparr>)"
proof -
  have h1: "\<forall>i \<in> set (im_indicators capitalDeferred).
              ind_dotsKey i \<noteq> join ''|'' (im_pendingCells capitalDeferred @ [''1''])"
    by (simp add: capitalDeferred_eq capitalIndicator_def capitalWordIndicator_def)
  have h2: "\<forall>i \<in> set (im_indicators capitalDeferred).
              \<not> startsWith (ind_dotsKey i)
                  (join ''|'' (im_pendingCells capitalDeferred @ [''1'']) @ ''|'')"
    by (simp add: capitalDeferred_eq capitalIndicator_def capitalWordIndicator_def
        startsWith_def)
  have h3: "deferredMatch capitalDeferred = Some capitalIndicator"
    by (simp add: capitalDeferred_eq)
  show ?thesis
    using deferred_commit [OF h1 h2 h3] h3 by simp
qed

text \<open>
  C6: a call of the multi-cell matcher with at least two cells in the buffer (one or more
  held, and the new one), where no entry of the current mode or of grade 1 has the buffered
  key and none continues it. When the cells held before are the key of such an entry, the
  first such entry is returned with the new cell as the only leftover; otherwise the result
  is \<open>none\<close> with the whole buffer. The buffer is cleared in both cases.
\<close>

theorem leftover_recovery:
  assumes "mcm_pendingCells m \<noteq> []"
      and "\<forall>e \<in> set (filter (\<lambda>e. mc_mode e = mode \<or> mc_mode e = Grade1) (entries m)).
             mc_dotsKey e \<noteq> join ''|'' (mcm_pendingCells m @ [k])"
      and "\<forall>e \<in> set (filter (\<lambda>e. mc_mode e = mode \<or> mc_mode e = Grade1) (entries m)).
             \<not> startsWith (mc_dotsKey e) (join ''|'' (mcm_pendingCells m @ [k]) @ ''|'')"
  shows "MultiCellMatcher_tryMatch k mode m =
           (case find (\<lambda>e. mc_dotsKey e = join ''|'' (mcm_pendingCells m))
                   (filter (\<lambda>e. mc_mode e = mode \<or> mc_mode e = Grade1) (entries m)) of
              Some prevMatch \<Rightarrow>
                (MatchedWithLeftover prevMatch [k], m\<lparr>mcm_pendingCells := []\<rparr>)
            | None \<Rightarrow> (NoneResult (mcm_pendingCells m @ [k]), m\<lparr>mcm_pendingCells := []\<rparr>))"
proof -
  let ?es = "filter (\<lambda>e. mc_mode e = mode \<or> mc_mode e = Grade1) (entries m)"
  have e: "find (\<lambda>e. mc_dotsKey e = join ''|'' (mcm_pendingCells m @ [k])) ?es = None"
    using assms(2) by (auto simp: find_None_iff)
  have l: "\<not> list_ex (\<lambda>e. startsWith (mc_dotsKey e) (join ''|'' (mcm_pendingCells m @ [k]) @ ''|'')) ?es"
    using assms(3) by (auto simp: list_ex_iff)
  have n: "length (mcm_pendingCells m @ [k]) > 1"
    using assms(1) by (cases "mcm_pendingCells m") simp_all
  show ?thesis
    using l n by (simp add: MultiCellMatcher_tryMatch_def Let_def e split: option.splits)
qed

theorem leftover_recovery_witness:
  "mcm_pendingCells parenPending \<noteq> [] \<and>
   MultiCellMatcher_tryMatch ''1'' Kana parenPending =
     (MatchedWithLeftover leftParen [''1''], parenPending\<lparr>mcm_pendingCells := []\<rparr>) \<and>
   mcm_pendingCells fivePending \<noteq> [] \<and>
   MultiCellMatcher_tryMatch ''999'' Kana fivePending =
     (NoneResult [''5'', ''999''], fivePending\<lparr>mcm_pendingCells := []\<rparr>)"
proof -
  have a1: "mcm_pendingCells parenPending \<noteq> []"
    by (simp add: parenPending_eq)
  have a2: "\<forall>e \<in> set (filter (\<lambda>e. mc_mode e = Kana \<or> mc_mode e = Grade1) (entries parenPending)).
             mc_dotsKey e \<noteq> join ''|'' (mcm_pendingCells parenPending @ [''1''])"
    by (simp add: parenPending_eq leftParen_def leftParenLong_def makeEntry_def)
  have a3: "\<forall>e \<in> set (filter (\<lambda>e. mc_mode e = Kana \<or> mc_mode e = Grade1) (entries parenPending)).
             \<not> startsWith (mc_dotsKey e) (join ''|'' (mcm_pendingCells parenPending @ [''1'']) @ ''|'')"
    by (simp add: parenPending_eq leftParen_def leftParenLong_def makeEntry_def startsWith_def)
  have b1: "mcm_pendingCells fivePending \<noteq> []"
    by (simp add: fivePending_eq)
  have b2: "\<forall>e \<in> set (filter (\<lambda>e. mc_mode e = Kana \<or> mc_mode e = Grade1) (entries fivePending)).
             mc_dotsKey e \<noteq> join ''|'' (mcm_pendingCells fivePending @ [''999''])"
    by (simp add: fivePending_eq leftParen_def makeEntry_def)
  have b3: "\<forall>e \<in> set (filter (\<lambda>e. mc_mode e = Kana \<or> mc_mode e = Grade1) (entries fivePending)).
             \<not> startsWith (mc_dotsKey e) (join ''|'' (mcm_pendingCells fivePending @ [''999'']) @ ''|'')"
    by (simp add: fivePending_eq leftParen_def makeEntry_def startsWith_def)
  have f1: "find (\<lambda>e. mc_dotsKey e = join ''|'' (mcm_pendingCells parenPending))
              (filter (\<lambda>e. mc_mode e = Kana \<or> mc_mode e = Grade1) (entries parenPending))
            = Some leftParen"
    by (simp add: parenPending_eq leftParen_def leftParenLong_def makeEntry_def)
  have f2: "find (\<lambda>e. mc_dotsKey e = join ''|'' (mcm_pendingCells fivePending))
              (filter (\<lambda>e. mc_mode e = Kana \<or> mc_mode e = Grade1) (entries fivePending))
            = None"
    by (simp add: fivePending_eq leftParen_def makeEntry_def)
  have c: "mcm_pendingCells fivePending @ [''999''] = [''5'', ''999'']"
    by (simp add: fivePending_eq)
  show ?thesis
    using leftover_recovery [OF a1 a2 a3] leftover_recovery [OF b1 b2 b3] a1 b1
    by (simp add: f1 f2 c)
qed

text \<open>
  C9: after a call of either matcher, cells are left in the buffer exactly when the result
  is \<open>pending\<close>; with \<open>matched\<close>, \<open>matched_with_leftover\<close> and \<open>none\<close> the buffer is
  empty and \<open>hasPending\<close> is false.
\<close>

theorem buffer_empty_unless_pending:
  "IndicatorMatcher_hasPending (snd (IndicatorMatcher_tryMatch k m))
     = (fst (IndicatorMatcher_tryMatch k m) = Pending) \<and>
   MultiCellMatcher_hasPending (snd (MultiCellMatcher_tryMatch k mode mm))
     = (fst (MultiCellMatcher_tryMatch k mode mm) = Pending)"
proof
  show "IndicatorMatcher_hasPending (snd (IndicatorMatcher_tryMatch k m))
     = (fst (IndicatorMatcher_tryMatch k m) = Pending)"
    by (simp add: IndicatorMatcher_tryMatch_def IndicatorMatcher_hasPending_def Let_def
        split: option.splits)
  show "MultiCellMatcher_hasPending (snd (MultiCellMatcher_tryMatch k mode mm))
     = (fst (MultiCellMatcher_tryMatch k mode mm) = Pending)"
    by (simp add: MultiCellMatcher_tryMatch_def MultiCellMatcher_hasPending_def Let_def
        split: option.splits)
qed

theorem buffer_empty_unless_pending_witness:
  "fst (IndicatorMatcher_tryMatch ''1'' capitalDeferred)
     = MatchedWithLeftover capitalIndicator [''1''] \<and>
   IndicatorMatcher_hasPending (snd (IndicatorMatcher_tryMatch ''1'' capitalDeferred)) = False \<and>
   fst (MultiCellMatcher_tryMatch ''1'' Kana fivePending) = NoneResult [''5'', ''1''] \<and>
   MultiCellMatcher_hasPending (snd (MultiCellMatcher_tryMatch ''1'' Kana fivePending)) = False"
proof -
  have a: "fst (IndicatorMatcher_tryMatch ''1'' capitalDeferred)
     = MatchedWithLeftover capitalIndicator [''1'']"
    by (simp add: capitalDeferred_eq IndicatorMatcher_tryMatch_def capitalIndicator_def
        capitalWordIndicator_def startsWith_def Let_def)
  have b: "fst (MultiCellMatcher_tryMatch ''1'' Kana fivePending) = NoneResult [''5'', ''1'']"
    by (simp add: fivePending_eq MultiCellMatcher_tryMatch_def leftParen_def makeEntry_def
        startsWith_def Let_def)
  show ?thesis
    using buffer_empty_unless_pending [of "''1''" capitalDeferred Kana fivePending]
    by (simp add: a b)
qed

section \<open>Overlay tracker: recording and rendering\<close>

lemma padLine_eq: "padLine col arr = arr @ replicate (Suc col - length arr) []"
proof (induction col arr rule: padLine.induct)
  case (1 col arr)
  show ?case
  proof (cases "length arr \<le> col")
    case True
    then have "Suc col - length arr = Suc (col - length arr)" by simp
    have "padLine col arr = padLine col (arr @ [[]])"
      using True by (subst padLine.simps) simp
    also have "\<dots> = (arr @ [[]]) @ replicate (Suc col - length (arr @ [[]])) []"
      using "1" True by simp
    also have "\<dots> = arr @ replicate (Suc col - length arr) []"
      using True by (simp add: Suc_diff_le)
    finally show ?thesis .
  next
    case False
    then show ?thesis by (subst padLine.simps) simp
  qed
qed

lemma length_padLine: "length (padLine col arr) = max (length arr) (Suc col)"
  by (simp add: padLine_eq)

lemma dotsKeyToUnicodeBraille_one: "length (dotsKeyToUnicodeBraille e) = 1"
  by (simp add: dotsKeyToUnicodeBraille_def)

lemma concat_singletons:
  "\<forall>x \<in> set xs. length (f x) = 1 \<Longrightarrow> concat (map f xs) = map (\<lambda>x. f x ! 0) xs"
proof (induction xs)
  case Nil
  then show ?case by simp
next
  case (Cons x xs)
  then have "length (f x) = 1" by simp
  then obtain y where "f x = [y]" by (cases "f x") simp_all
  with Cons show ?case by simp
qed

lemma BrailleTracker_record_line:
  "lineData (BrailleTracker_record line col k t) line
     = Some ((padLine col (case lineData t line of None \<Rightarrow> [] | Some a \<Rightarrow> a))[col := k])"
  by (simp add: BrailleTracker_record_def Let_def)

lemma getLine_stored:
  "lineData t line = Some arr \<Longrightarrow>
   getLine t line = concat (map (\<lambda>e. if e = [] then [10240] else dotMapper t e) arr)"
  by (simp add: getLine_def)

text \<open>
  C8: \<open>record(line, col, k)\<close> stores, for the line, its former entries padded with empty
  entries up to column \<open>col\<close> and with \<open>k\<close> written at \<open>col\<close>: the stored line has
  length at least \<open>col + 1\<close>, the positions between the former end and \<open>col\<close> are empty and
  the other former entries are kept. \<open>getLine(line)\<close> afterwards is the concatenation, in
  column order, of U+2800 for each empty entry and of the mapper's encoding for each other
  entry; with the Unicode braille encoding that is exactly one glyph for each stored entry.
\<close>

theorem record_pads_and_renders:
  "(let arr = (case lineData t line of None \<Rightarrow> [] | Some a \<Rightarrow> a);
        stored = (arr @ replicate (Suc col - length arr) [])[col := k];
        t' = BrailleTracker_record line col k t
    in lineData t' line = Some stored \<and>
       length stored = max (length arr) (Suc col) \<and>
       stored ! col = k \<and>
       (\<forall>j. length arr \<le> j \<and> j < col \<longrightarrow> stored ! j = []) \<and>
       (\<forall>j. j < length arr \<and> j \<noteq> col \<longrightarrow> stored ! j = arr ! j) \<and>
       getLine t' line = concat (map (\<lambda>e. if e = [] then [10240] else dotMapper t e) stored) \<and>
       (dotMapper t = dotsKeyToUnicodeBraille \<longrightarrow>
          length (getLine t' line) = length stored \<and>
          (\<forall>j < length stored.
             getLine t' line ! j
               = (if stored ! j = [] then 10240 else dotsKeyToUnicodeBraille (stored ! j) ! 0))))"
proof -
  define arr where "arr = (case lineData t line of None \<Rightarrow> [] | Some a \<Rightarrow> a)"
  define stored where "stored = (arr @ replicate (Suc col - length arr) [])[col := k]"
  define t' where "t' = BrailleTracker_record line col k t"
  have s1: "lineData t' line = Some stored"
    by (simp add: t'_def stored_def arr_def BrailleTracker_record_line padLine_eq)
  have s2: "length stored = max (length arr) (Suc col)"
    by (simp add: stored_def)
  have s3: "stored ! col = k"
    by (simp add: stored_def)
  have s4: "\<forall>j. length arr \<le> j \<and> j < col \<longrightarrow> stored ! j = []"
  proof (intro allI impI)
    fix j
    assume j: "length arr \<le> j \<and> j < col"
    then have "j - length arr < Suc col - length arr" by arith
    then have "replicate (Suc col - length arr) ([]::string) ! (j - length arr) = []"
      by (rule nth_replicate)
    with j show "stored ! j = []"
      by (simp add: stored_def nth_append)
  qed
  have s5: "\<forall>j. j < length arr \<and> j \<noteq> col \<longrightarrow> stored ! j = arr ! j"
    by (simp add: stored_def nth_append)
  have dm: "dotMapper t' = dotMapper t"
    by (simp add: t'_def BrailleTracker_record_def Let_def)
  have s6: "getLine t' line = concat (map (\<lambda>e. if e = [] then [10240] else dotMapper t e) stored)"
    using getLine_stored [OF s1] unfolding dm .
  have s7: "dotMapper t = dotsKeyToUnicodeBraille \<longrightarrow>
          length (getLine t' line) = length stored \<and>
          (\<forall>j < length stored.
             getLine t' line ! j
               = (if stored ! j = [] then 10240 else dotsKeyToUnicodeBraille (stored ! j) ! 0))"
  proof
    assume m: "dotMapper t = dotsKeyToUnicodeBraille"
    let ?f = "\<lambda>e. if e = [] then [10240] else dotsKeyToUnicodeBraille e"
    have one: "\<forall>e \<in> set stored. length (?f e) = 1"
      by (simp add: dotsKeyToUnicodeBraille_one)
    have g: "getLine t' line = map (\<lambda>e. ?f e ! 0) stored"
      using concat_singletons [OF one] unfolding s6 m .
    show "length (getLine t' line) = length stored \<and>
          (\<forall>j < length stored.
             getLine t' line ! j
               = (if stored ! j = [] then 10240 else dotsKeyToUnicodeBraille (stored ! j) ! 0))"
      unfolding g by (simp split: if_splits)
  qed
  from s1 s2 s3 s4 s5 s6 s7 show ?thesis
    unfolding Let_def arr_def [symmetric] stored_def [symmetric] t'_def [symmetric]
    by blast
qed


theorem record_pads_and_renders_witness:
  "lineData (BrailleTracker_record 0 2 ''14'' emptyTracker) 0 = Some [[], [], ''14''] \<and>
   getLine (BrailleTracker_record 0 2 ''14'' emptyTracker) 0 = [10240, 10240, 10249]"
proof -
  have e: "lineData emptyTracker 0 = None" "dotMapper emptyTracker = dotsKeyToUnicodeBraille"
    by (simp_all add: emptyTracker_def newBrailleTracker_def)
  have u: "(replicate 3 ([]::string))[2 := ''14''] = [[], [], ''14'']"
    by (simp add: eval_nat_numeral)
  have g: "dotsKeyToUnicodeBraille ''14'' = [10249]"
    by (simp add: dotsKeyToUnicodeBraille_def)
  show ?thesis
    using record_pads_and_renders [of emptyTracker 0 2 "''14''"]
    by (simp add: Let_def e u g)
qed

section \<open>Data unifier: two entries on one cell\<close>

lemma sortChars_256: "sortChars ''256'' = ''256''"
  by (simp add: sortChars_def)

lemma processSingleCell_conflict:
  assumes "raw_print entry = Some p" and "p \<noteq> []"
      and "m (dotsToKey (raw_dots entry)) = Some u" and "mappings u mode = Some existing"
  shows "processSingleCell entry mode m (dotsToKey (raw_dots entry)) =
           Some (u\<lparr>mappings := (mappings u)(mode \<mapsto>
              (if (raw_role entry = ''open'' \<or> raw_role entry = ''close'') \<and>
                  \<not> (dm_role existing = ''open'' \<or> dm_role existing = ''close'')
               then \<lparr>dm_print = p, dm_role = raw_role entry, dm_id = raw_id entry\<rparr>
               else existing))\<rparr>)"
proof -
  have triv: "u\<lparr>mappings := (mappings u)(mode \<mapsto> existing)\<rparr> = u"
    using assms(4) by (simp add: map_upd_triv)
  show ?thesis
    using assms by (simp add: processSingleCell_def Let_def triv)
qed

text \<open>
  C1: the unifier's own test registers the contraction \<^verbatim>\<open>dis\<close> (role \<^verbatim>\<open>groupsigns\<close>) and
  then the full stop (role \<^verbatim>\<open>punctuation\<close>) on the cell \<^verbatim>\<open>256\<close> of a profile for both
  grades, and expects the full stop under grade 1. \<^verbatim>\<open>processSingleCell\<close> has the rule for
  paired roles only, as \<open>processSingleCell_conflict\<close> shows: the contraction, written first,
  stays.
\<close>

theorem contraction_then_punctuation:
  "map_option (\<lambda>u. map_option (\<lambda>mp. (dm_print mp, dm_role mp)) (mappings u Grade1))
     (processSingleCell period Grade2
       (processSingleCell period Grade1
         (processSingleCell contractionDis Grade2
           (processSingleCell contractionDis Grade1 Map.empty))) ''256'')
   = Some (Some ([100, 105, 115], ''groupsigns''))"
  by (simp add: processSingleCell_def contractionDis_def period_def makeRawEntry_def
      dotsToKey_def sortChars_256 Let_def)

section \<open>Pipeline driver: what one emission does\<close>

lemma pendingModifier_returnToBase: "pendingModifier (returnToBase s) = pendingModifier s"
  by (simp add: returnToBase_eq Let_def)

lemma pendingModifier_onCharacterEmitted:
  "pendingModifier (onCharacterEmitted s) = pendingModifier s"
  by (simp add: onCharacterEmitted_def Let_def pendingModifier_returnToBase)

lemma lookup_fields:
  "isNumericMode (processCharacter_lookup up mode md k d) = isNumericMode d"
  "unifiedData (processCharacter_lookup up mode md k d) = unifiedData d"
  "pendingModifier (stateMachine (processCharacter_lookup up mode md k d))
     = pendingModifier (stateMachine d)"
  by (simp_all add: processCharacter_lookup_def editorInsert_def Let_def
      pendingModifier_onCharacterEmitted split: option.splits)









lemma processCharacter_unifiedData:
  "unifiedData (processCharacter up k d) = unifiedData d"
  by (simp add: processCharacter_def consumeModifier_def editorInsert_def Let_def lookup_fields
      split: option.splits)

lemma processCharacter_pendingModifier:
  "pendingModifier (stateMachine (processCharacter up k d)) = None"
  by (simp add: processCharacter_def consumeModifier_def editorInsert_def Let_def lookup_fields
      pendingModifier_onCharacterEmitted split: option.splits)

lemma processCharacter_isNumericMode:
  "isNumericMode (processCharacter up k d)
     = ((pendingModifier (stateMachine d) = Some Numeric \<or> isNumericMode d) \<and>
        lookupNumeric (unifiedData d) k \<noteq> None)"
  by (auto simp add: processCharacter_def consumeModifier_def editorInsert_def Let_def lookup_fields
      split: option.splits)


lemma fold_processCharacter_unifiedData:
  "unifiedData (fold (processCharacter up) ks d) = unifiedData d"
  by (induction ks arbitrary: d) (simp_all add: processCharacter_unifiedData)

lemma fold_processCharacter_numeric:
  "(pendingModifier (stateMachine (fold (processCharacter up) ks d)) = Some Numeric \<or>
    isNumericMode (fold (processCharacter up) ks d))
   = ((pendingModifier (stateMachine d) = Some Numeric \<or> isNumericMode d) \<and>
      (\<forall>k \<in> set ks. lookupNumeric (unifiedData d) k \<noteq> None))"
proof (induction ks arbitrary: d)
  case Nil
  show ?case by simp
next
  case (Cons k ks)
  have "(pendingModifier (stateMachine (processCharacter up k d)) = Some Numeric \<or>
         isNumericMode (processCharacter up k d))
        = ((pendingModifier (stateMachine d) = Some Numeric \<or> isNumericMode d) \<and>
           lookupNumeric (unifiedData d) k \<noteq> None)"
    by (simp add: processCharacter_pendingModifier processCharacter_isNumericMode)
  then show ?case
    using Cons.IH [of "processCharacter up k d"]
    by (auto simp add: processCharacter_unifiedData)
qed

lemma fold_processCharacter_pendingModifier:
  "ks \<noteq> [] \<Longrightarrow> pendingModifier (stateMachine (fold (processCharacter up) ks d)) = None"
proof (induction ks arbitrary: d)
  case Nil
  then show ?case by simp
next
  case (Cons k ks)
  show ?case
  proof (cases "ks = []")
    case True
    then show ?thesis by (simp add: processCharacter_pendingModifier)
  next
    case False
    then show ?thesis using Cons.IH [of "processCharacter up k d"] by simp
  qed
qed

lemma handleChord_space:
  "Dot0 \<in> set dots \<Longrightarrow> isNumericMode (handleChord up dots d) = False"
  by (simp add: handleChord_def Let_def)

lemmas driver_eval =
  handleChord_def toggleMode_def activate_def processCellFallback_def processCharacter_def
  processCharacter_lookup_def emitMultiCellMatch_def flushAllPending_def insertSpace_def
  editorInsert_def MultiCellMatcher_tryMatch_def IndicatorMatcher_tryMatch_def
  MultiCellMatcher_flushPending_def IndicatorMatcher_flushPending_def
  setIndicators_def setEntries_def newIndicatorMatcher_def newMultiCellMatcher_def
  IndicatorMatcher_reset_def MultiCellMatcher_reset_def StateMachine_reset_def
  setModeChangeCallback_def newStateMachine_def processIndicator_def enterMode_def
  exitMode_def returnToBase_def consumeModifier_def onCharacterEmitted_def onSpace_def
  DotMapper_dotsToKey_def lookup_def lookupNumeric_def dotsKeyToUnicodeBraille_def
  startsWith_def Let_def

lemma numericDriver_facts:
  "pendingModifier (stateMachine numericDriver) = Some Numeric"
  "isNumericMode numericDriver"
  "unifiedData numericDriver = uebData"
  by (simp_all add: numericDriver_def uebData_def numericIndicator_def driver_eval)


text \<open>
  C4: when the numeric modifier is pending or \<open>numericMode\<close> is set, a cell processed at the
  character stage leaves \<open>numericMode\<close> true exactly when its key is in the numeric table;
  over a run of such cells \<open>numericMode\<close> is true at the end exactly when every key of the
  run is in the table, so the first key that is not clears it for the rest of the run. A
  space chord leaves \<open>numericMode\<close> false, whatever it was.
\<close>

theorem numeric_continuation:
  "(pendingModifier (stateMachine d) = Some Numeric \<or> isNumericMode d \<longrightarrow>
      isNumericMode (processCharacter up k d) = (lookupNumeric (unifiedData d) k \<noteq> None) \<and>
      (ks \<noteq> [] \<longrightarrow>
         isNumericMode (fold (processCharacter up) ks d)
           = (\<forall>c \<in> set ks. lookupNumeric (unifiedData d) c \<noteq> None))) \<and>
   (Dot0 \<in> set dots \<longrightarrow> isNumericMode (handleChord up dots d) = False)"
proof -
  have a: "pendingModifier (stateMachine d) = Some Numeric \<or> isNumericMode d \<longrightarrow>
      isNumericMode (processCharacter up k d) = (lookupNumeric (unifiedData d) k \<noteq> None)"
    by (simp add: processCharacter_isNumericMode)
  have b: "pendingModifier (stateMachine d) = Some Numeric \<or> isNumericMode d \<longrightarrow>
      ks \<noteq> [] \<longrightarrow>
         isNumericMode (fold (processCharacter up) ks d)
           = (\<forall>c \<in> set ks. lookupNumeric (unifiedData d) c \<noteq> None)"
  proof (intro impI)
    assume n: "pendingModifier (stateMachine d) = Some Numeric \<or> isNumericMode d"
      and ne: "ks \<noteq> []"
    have "isNumericMode (fold (processCharacter up) ks d)
         = (pendingModifier (stateMachine (fold (processCharacter up) ks d)) = Some Numeric \<or>
            isNumericMode (fold (processCharacter up) ks d))"
      by (simp add: fold_processCharacter_pendingModifier [OF ne])
    also have "\<dots> = (\<forall>c \<in> set ks. lookupNumeric (unifiedData d) c \<noteq> None)"
      using n by (simp add: fold_processCharacter_numeric)
    finally show "isNumericMode (fold (processCharacter up) ks d)
           = (\<forall>c \<in> set ks. lookupNumeric (unifiedData d) c \<noteq> None)" .
  qed
  have c: "Dot0 \<in> set dots \<longrightarrow> isNumericMode (handleChord up dots d) = False"
    by (simp add: handleChord_space)
  from a b c show ?thesis by blast
qed

theorem numeric_continuation_witness:
  "isNumericMode numericDriver \<and>
   isNumericMode (processCharacter asciiUpper ''1'' numericDriver) = True \<and>
   isNumericMode (fold (processCharacter asciiUpper) [''1'', ''12''] numericDriver) = True \<and>
   isNumericMode (fold (processCharacter asciiUpper) [''1'', ''123'', ''12''] numericDriver) = False \<and>
   isNumericMode (handleChord asciiUpper [Dot0] numericDriver) = False"
proof -
  have n: "pendingModifier (stateMachine numericDriver) = Some Numeric \<or> isNumericMode numericDriver"
    by (simp add: numericDriver_facts)
  have l1: "lookupNumeric (unifiedData numericDriver) ''1'' \<noteq> None"
    by (simp add: numericDriver_facts lookupNumeric_def uebData_def)
  have l2: "\<forall>c \<in> set [''1'', ''12'']. lookupNumeric (unifiedData numericDriver) c \<noteq> None"
    by (simp add: numericDriver_facts lookupNumeric_def uebData_def)
  have l3: "\<not> (\<forall>c \<in> set [''1'', ''123'', ''12'']. lookupNumeric (unifiedData numericDriver) c \<noteq> None)"
    by (simp add: numericDriver_facts lookupNumeric_def uebData_def)
  have ne: "[''1'', ''12''] \<noteq> []" "[''1'', ''123'', ''12''] \<noteq> []" and sp: "Dot0 \<in> set [Dot0]"
    by simp_all
  have a: "isNumericMode (processCharacter asciiUpper ''1'' numericDriver)"
    using numeric_continuation [of numericDriver asciiUpper "''1''" "[''1'', ''12'']" "[Dot0]"]
      n l1 by blast
  have b: "isNumericMode (fold (processCharacter asciiUpper) [''1'', ''12''] numericDriver)"
    using numeric_continuation [of numericDriver asciiUpper "''1''" "[''1'', ''12'']" "[Dot0]"]
      n l2 ne(1) by blast
  have c: "\<not> isNumericMode (fold (processCharacter asciiUpper) [''1'', ''123'', ''12''] numericDriver)"
    using numeric_continuation [of numericDriver asciiUpper "''1''" "[''1'', ''123'', ''12'']" "[Dot0]"]
      n l3 ne(2) by blast
  have d: "\<not> isNumericMode (handleChord asciiUpper [Dot0] numericDriver)"
    using numeric_continuation [of numericDriver asciiUpper "''1''" "[''1'', ''12'']" "[Dot0]"]
      sp by blast
  from a b c d show ?thesis
    by (simp add: numericDriver_facts)
qed

text \<open>
  C10: emitting a matched multi-cell entry clears the pending modifier of the state machine,
  inserts the entry's print (upper-cased when that modifier was the capital one) with the
  entry's multi-cell key, lets the state machine see one emitted character, and leaves
  \<open>numericMode\<close> false, also when it was true before.
\<close>

theorem emitMultiCellMatch_effects:
  "emitMultiCellMatch up entry d =
     d\<lparr>stateMachine := onCharacterEmitted ((stateMachine d)\<lparr>pendingModifier := None\<rparr>),
       isNumericMode := False,
       inserted := inserted d @
         [(if pendingModifier (stateMachine d) = Some Capital then up (mc_print entry)
           else mc_print entry,
           Some (mc_dotsKey entry))]\<rparr> \<and>
   pendingModifier (stateMachine (emitMultiCellMatch up entry d)) = None \<and>
   isNumericMode (emitMultiCellMatch up entry (d\<lparr>isNumericMode := True\<rparr>)) = False"
  by (simp add: emitMultiCellMatch_def consumeModifier_def editorInsert_def Let_def
      pendingModifier_onCharacterEmitted)

theorem emitMultiCellMatch_effects_witness:
  "pendingModifier (stateMachine capitalNumericDriver) = Some Capital \<and>
   isNumericMode capitalNumericDriver \<and>
   inserted (emitMultiCellMatch asciiUpper letterPair capitalNumericDriver)
     = [([65, 66], Some ''5|1'')] \<and>
   pendingModifier (stateMachine (emitMultiCellMatch asciiUpper letterPair capitalNumericDriver))
     = None \<and>
   isNumericMode (emitMultiCellMatch asciiUpper letterPair capitalNumericDriver) = False"
proof -
  note t = emitMultiCellMatch_effects [of asciiUpper letterPair capitalNumericDriver]
  have c: "pendingModifier (stateMachine capitalNumericDriver) = Some Capital"
    "isNumericMode capitalNumericDriver" "inserted capitalNumericDriver = []"
    by (simp_all add: capitalNumericDriver_def activate_def)
  have p: "asciiUpper (mc_print letterPair) = [65, 66]" "mc_dotsKey letterPair = ''5|1''"
    by (simp_all add: asciiUpper_def letterPair_def makeEntry_def)
  have e1: "inserted (emitMultiCellMatch asciiUpper letterPair capitalNumericDriver)
      = [([65, 66], Some ''5|1'')]"
    by (simp add: conjunct1 [OF t] c p)
  have e2: "isNumericMode (emitMultiCellMatch asciiUpper letterPair capitalNumericDriver) = False"
    by (simp add: conjunct1 [OF t])
  have e3: "pendingModifier (stateMachine
      (emitMultiCellMatch asciiUpper letterPair capitalNumericDriver)) = None"
    by (rule conjunct1 [OF conjunct2 [OF t]])
  from c e1 e2 e3 show ?thesis by simp
qed




end
